theory Spec2Isabelle
  imports Complex_Main
begin

section \<open>The notebook advancedASE.ipynb\<close>

text \<open>
  The repository is one notebook. Its cells build block-probability matrices with numpy,
  hand them to the external sampler \<^verbatim>\<open>sbm\<close> and to the external embedder, and plot.
  The embedding covers the two cells whose numpy code has logic of its own: the loop that
  extends the block-probability matrix by one block per iteration, and the last debugging
  cell, which assigns through a boolean-mask index. The elbow selection that the embedder
  performs belongs to the external library; the notebook holds no code of it, and it is
  not modelled.

  Floating-point entries are modelled as rationals. In both cells the entries of the
  matrices are only stored, copied and compared with the exactly representable constants
  0 and 1. The samples of \<^verbatim>\<open>np.linspace\<close> are computed in rationals; what is proved
  about the last cell depends on how many there are, not on their values.
\<close>

datatype error = ValueError | IndexError | AxisError | NameError | Unmodelled

subsection \<open>Two-dimensional arrays as values\<close>

text \<open>
  A two-dimensional array built from a nested Python list is the list of its rows.
  \<^verbatim>\<open>A.shape[0]\<close> is the number of rows and \<^verbatim>\<open>A.shape[1]\<close> the length of a row; an
  array with no row is given zero columns (the notebook builds none).
\<close>

type_synonym matrix = "rat list list"

definition shape0 :: "matrix \<Rightarrow> nat" where
  "shape0 A = length A"

definition shape1 :: "matrix \<Rightarrow> nat" where
  "shape1 A = (case A of [] \<Rightarrow> 0 | r # _ \<Rightarrow> length r)"

text \<open>
  \<^verbatim>\<open>np.concatenate((A, B), axis)\<close> on two-dimensional arrays: every dimension but the
  one joined must agree, otherwise numpy raises ValueError; an axis other than 0 and 1
  is an AxisError. Axis 0 stacks the rows of B under those of A, axis 1 appends each
  row of B to the row of A beside it.
\<close>

definition concatenate :: "matrix \<Rightarrow> matrix \<Rightarrow> nat \<Rightarrow> error + matrix" where
  "concatenate A B axis =
     (if axis = 0 then
        (if shape1 A = shape1 B then Inr (A @ B) else Inl ValueError)
      else if axis = 1 then
        (if shape0 A = shape0 B then Inr (map2 (@) A B) else Inl ValueError)
      else Inl AxisError)"

subsection \<open>The loop extending the block-probability matrix\<close>

text \<open>
  \<^verbatim>\<open>
  n = [25, 25]
  d = []
  k = []
  within_block = 0.7
  btwn_block = 0.1
  P = np.array([[within_block, btwn_block],
        [btwn_block, within_block]])
  for i in range(99):
      G = sbm(n, P)
      X_hat = embedder.fit_transform(G)
      k.append(P.shape[0])
      d.append(X_hat.shape[1])
      n.append(25)
      concat1 = np.array([[btwn_block]*P.shape[0]])
      concat2 = np.array([[btwn_block]]*P.shape[1]+[[within_block]])
      P = np.concatenate((P, concat1), 0)
      P = np.concatenate((P, concat2), 1)
  \<close>
  The sampler and the embedder are external and random; what the loop takes from them is
  the number of columns of \<^verbatim>\<open>X_hat\<close>, which the model receives from its environment:
  \<open>emb i\<close> is that number in iteration \<open>i\<close>.
\<close>

definition within_block :: rat where
  "within_block = 7 / 10"

definition btwn_block :: rat where
  "btwn_block = 1 / 10"

record ext_state =
  ext_n :: "nat list"
  ext_d :: "nat list"
  ext_k :: "nat list"
  ext_P :: matrix

definition extend_P :: "matrix \<Rightarrow> error + matrix" where
  "extend_P P =
     (let concat1 = [replicate (shape0 P) btwn_block];
          concat2 = replicate (shape1 P) [btwn_block] @ [[within_block]]
      in case concatenate P concat1 0 of
           Inl e \<Rightarrow> Inl e
         | Inr P' \<Rightarrow> concatenate P' concat2 1)"

definition loop_body :: "nat \<Rightarrow> ext_state \<Rightarrow> error + ext_state" where
  "loop_body cols s =
     (let k' = ext_k s @ [shape0 (ext_P s)];
          d' = ext_d s @ [cols];
          n' = ext_n s @ [25]
      in case extend_P (ext_P s) of
           Inl e \<Rightarrow> Inl e
         | Inr P' \<Rightarrow> Inr \<lparr>ext_n = n', ext_d = d', ext_k = k', ext_P = P'\<rparr>)"

text \<open>\<open>for_range emb m s\<close> runs the first \<open>m\<close> iterations of the loop from \<open>s\<close>.\<close>

fun for_range :: "(nat \<Rightarrow> nat) \<Rightarrow> nat \<Rightarrow> ext_state \<Rightarrow> error + ext_state" where
  "for_range emb 0 s = Inr s"
| "for_range emb (Suc m) s =
     (case for_range emb m s of
        Inl e \<Rightarrow> Inl e
      | Inr s' \<Rightarrow> loop_body (emb m) s')"

definition cell8_init :: ext_state where
  "cell8_init =
     \<lparr>ext_n = [25, 25], ext_d = [], ext_k = [],
      ext_P = [[within_block, btwn_block], [btwn_block, within_block]]\<rparr>"

definition cell8 :: "(nat \<Rightarrow> nat) \<Rightarrow> error + ext_state" where
  "cell8 emb = for_range emb 99 cell8_init"

text \<open>
  The matrix the markdown above the cell describes: \<open>m\<close> blocks, \<open>within_block\<close> on the
  diagonal and \<open>btwn_block\<close> everywhere else.
\<close>

definition block_matrix :: "nat \<Rightarrow> matrix" where
  "block_matrix m =
     map (\<lambda>i. map (\<lambda>j. if i = j then within_block else btwn_block) [0..<m]) [0..<m]"

subsection \<open>Arrays as objects\<close>

text \<open>
  The last debugging cell assigns into arrays in place, so there arrays are objects in a
  heap and a Python variable holds an address. An array is one- or two-dimensional, of
  floats or of booleans. The heap is the list of the objects allocated so far; an address
  is a position in it, and allocation appends. Nothing is ever freed: a temporary that
  Python would collect stays in the list, unreachable.
\<close>

datatype 'a nd = Vec "'a list" | Mat "'a list list"

datatype ndarray = FloatArr "rat nd" | BoolArr "bool nd"

type_synonym addr = nat

type_synonym heap = "ndarray list"

definition alloc :: "heap \<Rightarrow> ndarray \<Rightarrow> addr \<times> heap" where
  "alloc h a = (length h, h @ [a])"

text \<open>Reading a name that is bound to no object is Python's NameError.\<close>

definition deref :: "heap \<Rightarrow> addr \<Rightarrow> error + ndarray" where
  "deref h p = (if p < length h then Inr (h ! p) else Inl NameError)"

fun flat :: "'a nd \<Rightarrow> 'a list" where
  "flat (Vec xs) = xs"
| "flat (Mat rows) = concat rows"

fun shape_nd :: "'a nd \<Rightarrow> nat list" where
  "shape_nd (Vec xs) = [length xs]"
| "shape_nd (Mat rows) = [length rows, (case rows of [] \<Rightarrow> 0 | r # _ \<Rightarrow> length r)]"

text \<open>
  \<^verbatim>\<open>np.identity(n)\<close>, and \<^verbatim>\<open>np.linspace(start, stop, num)\<close> as numpy computes it:
  \<open>num - 1\<close> steps of equal size from \<open>start\<close>, the last sample set to \<open>stop\<close>.
\<close>

definition identity :: "nat \<Rightarrow> matrix" where
  "identity n = map (\<lambda>i. map (\<lambda>j. if i = j then 1 else 0) [0..<n]) [0..<n]"

definition linspace :: "rat \<Rightarrow> rat \<Rightarrow> nat \<Rightarrow> rat list" where
  "linspace start stop num =
     (if num = 0 then []
      else if num = 1 then [start]
      else map (\<lambda>i. start + of_nat i * ((stop - start) / of_nat (num - 1))) [0..<num - 1] @ [stop])"

definition np_identity :: "nat \<Rightarrow> heap \<Rightarrow> addr \<times> heap" where
  "np_identity n h = alloc h (FloatArr (Mat (identity n)))"

definition np_linspace :: "rat \<Rightarrow> rat \<Rightarrow> nat \<Rightarrow> heap \<Rightarrow> addr \<times> heap" where
  "np_linspace start stop num h = alloc h (FloatArr (Vec (linspace start stop num)))"

text \<open>
  \<^verbatim>\<open>np.flip(a)\<close> reverses every axis, which reverses the elements in row-major order.
  numpy returns a view of \<open>a\<close>; the notebook only reads the flipped array, once, so the
  model allocates the reversed elements as an object of their own.
\<close>

fun flip_nd :: "'a nd \<Rightarrow> 'a nd" where
  "flip_nd (Vec xs) = Vec (rev xs)"
| "flip_nd (Mat rows) = Mat (rev (map rev rows))"

definition np_flip :: "addr \<Rightarrow> heap \<Rightarrow> error + addr \<times> heap" where
  "np_flip p h =
     (case deref h p of
        Inl e \<Rightarrow> Inl e
      | Inr (FloatArr a) \<Rightarrow> Inr (alloc h (FloatArr (flip_nd a)))
      | Inr (BoolArr a) \<Rightarrow> Inr (alloc h (BoolArr (flip_nd a))))"

text \<open>
  \<^verbatim>\<open>a == c\<close> for an array \<open>a\<close> and a number \<open>c\<close>: a new boolean array of the shape of
  \<open>a\<close>, the comparison taken element by element (a boolean counts as 0 or 1).
\<close>

definition eq_scalar :: "addr \<Rightarrow> rat \<Rightarrow> heap \<Rightarrow> error + addr \<times> heap" where
  "eq_scalar p c h =
     (case deref h p of
        Inl e \<Rightarrow> Inl e
      | Inr (FloatArr a) \<Rightarrow> Inr (alloc h (BoolArr (map_nd (\<lambda>x. x = c) a)))
      | Inr (BoolArr a) \<Rightarrow> Inr (alloc h (BoolArr (map_nd (\<lambda>x. of_bool x = c) a))))"

text \<open>
  \<^verbatim>\<open>a[m]\<close> with \<open>m\<close> a boolean array of the shape of \<open>a\<close> is numpy's advanced indexing:
  \<^verbatim>\<open>a.__getitem__(m)\<close> returns a new one-dimensional array holding copies of the
  elements of \<open>a\<close> where \<open>m\<close> is true, in row-major order. A boolean index whose shape
  disagrees is an IndexError, and so is a float array used as an index. A
  one-dimensional mask as long as a matrix has rows selects whole rows in numpy; the
  notebook has no such index and the model reports it as outside its fragment.
\<close>

definition select :: "'a list \<Rightarrow> bool list \<Rightarrow> 'a list" where
  "select xs ms = map fst (filter snd (zip xs ms))"

fun masked :: "ndarray \<Rightarrow> bool list \<Rightarrow> ndarray" where
  "masked (FloatArr a) ms = FloatArr (Vec (select (flat a) ms))"
| "masked (BoolArr a) ms = BoolArr (Vec (select (flat a) ms))"

fun shape :: "ndarray \<Rightarrow> nat list" where
  "shape (FloatArr a) = shape_nd a"
| "shape (BoolArr a) = shape_nd a"

definition mask_mismatch :: "nat list \<Rightarrow> nat list \<Rightarrow> error" where
  "mask_mismatch ks as =
     (if length ks < length as \<and> hd ks = hd as then Unmodelled else IndexError)"

definition getitem_mask :: "addr \<Rightarrow> addr \<Rightarrow> heap \<Rightarrow> error + addr \<times> heap" where
  "getitem_mask p m h =
     (case deref h p of
        Inl e \<Rightarrow> Inl e
      | Inr a \<Rightarrow>
          (case deref h m of
             Inl e \<Rightarrow> Inl e
           | Inr (FloatArr _) \<Rightarrow> Inl IndexError
           | Inr (BoolArr k) \<Rightarrow>
               if shape_nd k = shape a then Inr (alloc h (masked a (flat k)))
               else Inl (mask_mismatch (shape_nd k) (shape a))))"

text \<open>
  \<^verbatim>\<open>a[lo:hi] = v\<close> for a one-dimensional float array \<open>a\<close> is basic indexing:
  \<^verbatim>\<open>a.__setitem__(slice(lo, hi), v)\<close> writes into the object \<open>a\<close> itself. The bounds
  are clipped to the length as Python's slices are (the notebook uses no negative
  bound and no step); \<open>v\<close> must have as many elements as the slice, or one element,
  which is broadcast; anything else is a ValueError. Slices of matrices and stores of
  booleans are outside the model's fragment.
\<close>

definition slice_bounds :: "nat option \<Rightarrow> nat option \<Rightarrow> nat \<Rightarrow> nat \<times> nat" where
  "slice_bounds lo hi len =
     (let l = (case lo of None \<Rightarrow> 0 | Some i \<Rightarrow> min i len);
          u = (case hi of None \<Rightarrow> len | Some j \<Rightarrow> min j len)
      in (l, max l u))"

definition setitem_slice ::
  "addr \<Rightarrow> nat option \<Rightarrow> nat option \<Rightarrow> addr \<Rightarrow> heap \<Rightarrow> error + heap" where
  "setitem_slice t lo hi v h =
     (case deref h t of
        Inl e \<Rightarrow> Inl e
      | Inr a \<Rightarrow>
          (case deref h v of
             Inl e \<Rightarrow> Inl e
           | Inr b \<Rightarrow>
               (case (a, b) of
                  (FloatArr (Vec xs), FloatArr (Vec vs)) \<Rightarrow>
                    (let (l, u) = slice_bounds lo hi (length xs)
                     in if length vs = u - l
                        then Inr (h[t := FloatArr (Vec (take l xs @ vs @ drop u xs))])
                        else if length vs = 1
                        then Inr (h[t := FloatArr
                                   (Vec (take l xs @ replicate (u - l) (hd vs) @ drop u xs))])
                        else Inl ValueError)
                | _ \<Rightarrow> Inl Unmodelled)))"

text \<open>
  \<^verbatim>\<open>a[m] = v\<close> with \<open>m\<close> a boolean array of the shape of \<open>a\<close>, the form the earlier
  debugging cells use (\<^verbatim>\<open>P[P==1] = probs\<close>, \<^verbatim>\<open>I[I==1] = probs\<close>):
  \<^verbatim>\<open>a.__setitem__(m, v)\<close> writes the elements of \<open>v\<close>, in order, into \<open>a\<close> itself where
  \<open>m\<close> is true. \<open>v\<close> must have as many elements as \<open>m\<close> has true entries, or one.
\<close>

fun place :: "'a list \<Rightarrow> bool list \<Rightarrow> 'a list \<Rightarrow> 'a list" where
  "place (x # xs) (m # ms) vs =
     (if m then (case vs of [] \<Rightarrow> x # xs | v # vs' \<Rightarrow> v # place xs ms vs')
      else x # place xs ms vs)"
| "place xs _ _ = xs"

fun place_rows :: "'a list list \<Rightarrow> bool list list \<Rightarrow> 'a list \<Rightarrow> 'a list list" where
  "place_rows (r # rs) (m # ms) vs =
     place r m vs # place_rows rs ms (drop (length (filter id m)) vs)"
| "place_rows rs _ _ = rs"

fun place_nd :: "'a nd \<Rightarrow> bool nd \<Rightarrow> 'a list \<Rightarrow> 'a nd" where
  "place_nd (Vec xs) (Vec ms) vs = Vec (place xs ms vs)"
| "place_nd (Mat rs) (Mat ms) vs = Mat (place_rows rs ms vs)"
| "place_nd a _ _ = a"

definition setitem_mask :: "addr \<Rightarrow> addr \<Rightarrow> addr \<Rightarrow> heap \<Rightarrow> error + heap" where
  "setitem_mask p m v h =
     (case deref h p of
        Inl e \<Rightarrow> Inl e
      | Inr a \<Rightarrow>
          (case deref h m of
             Inl e \<Rightarrow> Inl e
           | Inr k \<Rightarrow>
               (case deref h v of
                  Inl e \<Rightarrow> Inl e
                | Inr b \<Rightarrow>
                    (case (a, k, b) of
                       (FloatArr x, BoolArr ms, FloatArr (Vec vs)) \<Rightarrow>
                         (let cnt = length (filter id (flat ms))
                          in if shape_nd ms = shape_nd x then
                               (if length vs = cnt
                                then Inr (h[p := FloatArr (place_nd x ms vs)])
                                else if length vs = 1
                                then Inr (h[p := FloatArr
                                           (place_nd x ms (replicate cnt (hd vs)))])
                                else Inl ValueError)
                             else Inl (mask_mismatch (shape_nd ms) (shape_nd x)))
                     | _ \<Rightarrow> Inl Unmodelled))))"

subsection \<open>The last debugging cell\<close>

text \<open>
  \<^verbatim>\<open>
  btwn_max = np.linspace(0.01, 0.49, 10)
  embedder.set_params(algorithm="full")
  for b in btwn_max:
      plt.figure()
      btwn = np.linspace(b/(45), b, 45)
      P = np.identity(10)
      P[P==0][:45] = btwn
      P[P==0][45:] = np.flip(btwn)
      plt.plot(svdvals(P))
      n = [25]*10
      G = sbm(n, P)
      embedder.fit(G)
      plt.plot(svdvals(G)[0:20])
      plt.plot(embedder.singular_values_)
  \<close>
  An assignment statement evaluates its right-hand side first, then the object of its
  target, then stores. The target \<^verbatim>\<open>P[P==0][lo:hi]\<close> has the object \<^verbatim>\<open>P[P==0]\<close>, so the
  statement \<^verbatim>\<open>P[P==c][lo:hi] = v\<close> is
  \<^verbatim>\<open>P.__getitem__(P.__eq__(c)).__setitem__(slice(lo, hi), v)\<close>.
\<close>

definition assign_masked_slice ::
  "addr \<Rightarrow> rat \<Rightarrow> nat option \<Rightarrow> nat option \<Rightarrow> addr \<Rightarrow> heap \<Rightarrow> error + heap" where
  "assign_masked_slice p c lo hi v h =
     (case eq_scalar p c h of
        Inl e \<Rightarrow> Inl e
      | Inr (m, h1) \<Rightarrow>
          (case getitem_mask p m h1 of
             Inl e \<Rightarrow> Inl e
           | Inr (t, h2) \<Rightarrow> setitem_slice t lo hi v h2))"

text \<open>
  The statement \<^verbatim>\<open>P[P==c] = v\<close> of the earlier cells, for comparison:
  \<^verbatim>\<open>P.__setitem__(P.__eq__(c), v)\<close>.
\<close>

definition assign_masked :: "addr \<Rightarrow> rat \<Rightarrow> addr \<Rightarrow> heap \<Rightarrow> error + heap" where
  "assign_masked p c v h =
     (case eq_scalar p c h of
        Inl e \<Rightarrow> Inl e
      | Inr (m, h1) \<Rightarrow> setitem_mask p m v h1)"

text \<open>
  The state of the cell: the heap, the variables the loop binds, and the calls of the
  external sampler made so far, each with the value its arguments had at the call. The
  plotting calls, \<^verbatim>\<open>svdvals\<close> and the embedder read their arguments and are left out.
  \<^verbatim>\<open>btwn_max\<close> is only iterated over, so the loop runs over the list of its samples.
\<close>

record dbg_state =
  dbg_heap :: heap
  dbg_btwn :: addr
  dbg_P :: addr
  dbg_n :: "nat list"
  sbm_calls :: "(nat list \<times> ndarray) list"

definition cell27_body :: "rat \<Rightarrow> dbg_state \<Rightarrow> error + dbg_state" where
  "cell27_body b s =
     (let (btwn, h1) = np_linspace (b / 45) b 45 (dbg_heap s);
          (P, h2) = np_identity 10 h1
      in case assign_masked_slice P 0 None (Some 45) btwn h2 of
           Inl e \<Rightarrow> Inl e
         | Inr h3 \<Rightarrow>
             (case np_flip btwn h3 of
                Inl e \<Rightarrow> Inl e
              | Inr (f, h4) \<Rightarrow>
                  (case assign_masked_slice P 0 (Some 45) None f h4 of
                     Inl e \<Rightarrow> Inl e
                   | Inr h5 \<Rightarrow>
                       (let n = replicate 10 25
                        in case deref h5 P of
                             Inl e \<Rightarrow> Inl e
                           | Inr Pval \<Rightarrow>
                               Inr \<lparr>dbg_heap = h5, dbg_btwn = btwn, dbg_P = P, dbg_n = n,
                                    sbm_calls = sbm_calls s @ [(n, Pval)]\<rparr>))))"

fun for_each :: "rat list \<Rightarrow> dbg_state \<Rightarrow> error + dbg_state" where
  "for_each [] s = Inr s"
| "for_each (b # bs) s =
     (case cell27_body b s of
        Inl e \<Rightarrow> Inl e
      | Inr s' \<Rightarrow> for_each bs s')"

definition cell27 :: "dbg_state \<Rightarrow> error + dbg_state" where
  "cell27 s = for_each (linspace (1 / 100) (49 / 100) 10) s"

text \<open>A state with nothing allocated and no call made, to run the cell from.\<close>

definition empty_state :: dbg_state where
  "empty_state = \<lparr>dbg_heap = [], dbg_btwn = 0, dbg_P = 0, dbg_n = [], sbm_calls = []\<rparr>"

subsection \<open>The extension loop keeps the block structure\<close>

lemma replicate_off_diag:
  "replicate m btwn_block = map (\<lambda>j. if m = j then within_block else btwn_block) [0..<m]"
  by (rule nth_equalityI) simp_all

lemma length_block_matrix: "length (block_matrix m) = m"
  by (simp add: block_matrix_def)

lemma nth_block_matrix:
  "i < m \<Longrightarrow> block_matrix m ! i = map (\<lambda>j. if i = j then within_block else btwn_block) [0..<m]"
  by (simp add: block_matrix_def)

lemma shape1_block_matrix: "shape1 (block_matrix m) = m"
  by (cases m) (simp_all add: shape1_def block_matrix_def upt_conv_Cons del: upt_Suc)

lemma extend_P_block_matrix: "extend_P (block_matrix m) = Inr (block_matrix (Suc m))"
proof -
  let ?A = "block_matrix m @ [replicate m btwn_block]"
  let ?B = "replicate m [btwn_block] @ [[within_block]]"
  have c0: "concatenate (block_matrix m) [replicate m btwn_block] 0 = Inr ?A"
    by (simp add: concatenate_def shape1_block_matrix) (simp add: shape1_def)
  have c1: "concatenate ?A ?B 1 = Inr (map2 (@) ?A ?B)"
    by (simp add: concatenate_def shape0_def length_block_matrix)
  have eq: "map2 (@) ?A ?B = block_matrix (Suc m)"
  proof (rule nth_equalityI)
    show "length (map2 (@) ?A ?B) = length (block_matrix (Suc m))"
      by (simp add: length_block_matrix)
  next
    fix i assume "i < length (map2 (@) ?A ?B)"
    then have i: "i < Suc m" by (simp add: length_block_matrix)
    show "map2 (@) ?A ?B ! i = block_matrix (Suc m) ! i"
    proof (cases "i < m")
      case True
      then show ?thesis
        by (simp add: nth_append length_block_matrix nth_block_matrix)
    next
      case False
      with i have "i = m" by simp
      then show ?thesis
        by (simp add: nth_append length_block_matrix nth_block_matrix replicate_off_diag)
    qed
  qed
  have "extend_P (block_matrix m) = concatenate ?A ?B 1"
    by (simp add: extend_P_def Let_def shape0_def length_block_matrix shape1_block_matrix c0)
  then show ?thesis
    by (simp only: c1 eq)
qed


lemma cell8_init_P: "ext_P cell8_init = block_matrix 2"
  by (simp add: cell8_init_def block_matrix_def numeral_2_eq_2)

lemma loop_body_block_matrix:
  "ext_P s = block_matrix m \<Longrightarrow>
   loop_body cols s =
     Inr \<lparr>ext_n = ext_n s @ [25], ext_d = ext_d s @ [cols], ext_k = ext_k s @ [m],
          ext_P = block_matrix (Suc m)\<rparr>"
  by (simp add: loop_body_def Let_def extend_P_block_matrix shape0_def length_block_matrix)

lemma for_range_block_matrix:
  "\<exists>s. for_range emb j cell8_init = Inr s \<and> ext_P s = block_matrix (j + 2) \<and>
       ext_k s = [2..<j + 2] \<and> ext_d s = map emb [0..<j] \<and> ext_n s = replicate (j + 2) 25"
proof (induction j)
  case 0
  show ?case
    by (simp add: cell8_init_P) (simp add: cell8_init_def numeral_2_eq_2)
next
  case (Suc j)
  then obtain s where s: "for_range emb j cell8_init = Inr s" "ext_P s = block_matrix (j + 2)"
    "ext_k s = [2..<j + 2]" "ext_d s = map emb [0..<j]" "ext_n s = replicate (j + 2) 25"
    by blast
  show ?case
    using s(1) loop_body_block_matrix [OF s(2), of "emb j"] s(3,4,5)
    by (simp add: replicate_append_same)
qed

lemma block_matrix_entry:
  "a < m \<Longrightarrow> b < m \<Longrightarrow> block_matrix m ! a ! b = (if a = b then within_block else btwn_block)"
  by (simp add: block_matrix_def)

lemma block_matrix_rows: "list_all (\<lambda>r. length r = m) (block_matrix m)"
  by (simp add: block_matrix_def list_all_iff)

text \<open>
  Claim C10. After each of the iterations of the extension loop (\<open>j\<close> of them done,
  \<open>j\<close> up to 99) the loop has raised nothing and \<open>P\<close> is square with \<open>j + 2\<close> rows and
  columns, every row of that length; every diagonal entry is \<open>within_block\<close>, every
  other entry \<open>btwn_block\<close>, and the matrix is symmetric. It starts 2 by 2 and, after the
  last iteration, the state the cell ends in holds the 101 by 101 matrix.
\<close>

theorem extension_loop_block_matrix:
  assumes "j \<le> 99"
  shows "\<exists>s. for_range emb j cell8_init = Inr s \<and>
           shape0 (ext_P s) = j + 2 \<and> shape1 (ext_P s) = j + 2 \<and>
           list_all (\<lambda>r. length r = j + 2) (ext_P s) \<and>
           (\<forall>a<j + 2. \<forall>b<j + 2.
              ext_P s ! a ! b = (if a = b then within_block else btwn_block) \<and>
              ext_P s ! a ! b = ext_P s ! b ! a) \<and>
           (j = 99 \<longrightarrow> cell8 emb = Inr s)"
proof -
  obtain s where s: "for_range emb j cell8_init = Inr s" "ext_P s = block_matrix (j + 2)"
    using for_range_block_matrix [of emb j] by blast
  have "shape0 (ext_P s) = j + 2"
    by (simp add: s(2) shape0_def length_block_matrix)
  moreover have "shape1 (ext_P s) = j + 2"
    by (simp only: s(2) shape1_block_matrix)
  moreover have "list_all (\<lambda>r. length r = j + 2) (ext_P s)"
    by (simp only: s(2) block_matrix_rows)
  moreover have "\<forall>a<j + 2. \<forall>b<j + 2.
      ext_P s ! a ! b = (if a = b then within_block else btwn_block) \<and>
      ext_P s ! a ! b = ext_P s ! b ! a"
    by (simp add: s(2) block_matrix_entry)
  moreover have "j = 99 \<longrightarrow> cell8 emb = Inr s"
    using s(1) by (auto simp: cell8_def)
  ultimately show ?thesis
    using s(1) by blast
qed

text \<open>
  The theorem at the end of the cell, with the embedder reporting four columns each time:
  the final matrix is 101 by 101, entry (3, 3) is 0.7 and entry (3, 100) is 0.1.
\<close>

theorem extension_loop_block_matrix_witness:
  "(99::nat) \<le> 99 \<and>
   (\<exists>s. cell8 (\<lambda>i. 4) = Inr s \<and> shape0 (ext_P s) = 101 \<and> shape1 (ext_P s) = 101 \<and>
        ext_P s ! 3 ! 3 = 7 / 10 \<and> ext_P s ! 3 ! 100 = 1 / 10 \<and>
        ext_P s ! 100 ! 3 = ext_P s ! 3 ! 100)"
proof -
  have le: "(99::nat) \<le> 99" by simp
  obtain s where s: "for_range (\<lambda>i. 4) 99 cell8_init = Inr s"
      "shape0 (ext_P s) = 99 + 2" "shape1 (ext_P s) = 99 + 2"
      "\<forall>a<99 + 2. \<forall>b<99 + 2.
          ext_P s ! a ! b = (if a = b then within_block else btwn_block) \<and>
          ext_P s ! a ! b = ext_P s ! b ! a"
    using extension_loop_block_matrix [OF le, of "\<lambda>i. 4"] by blast
  have e33: "ext_P s ! 3 ! 3 = 7 / 10"
    using s(4) by (simp add: within_block_def)
  have e3: "ext_P s ! 3 ! 100 = 1 / 10"
    using s(4) by (simp add: btwn_block_def)
  have sym: "ext_P s ! 100 ! 3 = ext_P s ! 3 ! 100"
    using s(4) by simp
  show ?thesis
    using s(1,2,3) e33 e3 sym by (simp add: cell8_def)
qed

subsection \<open>The masked slice assignments never reach P\<close>

lemma deref_append_old: "p < length h \<Longrightarrow> deref (h @ xs) p = deref h p"
  by (simp add: deref_def nth_append)

lemma eq_scalar_allocates:
  "eq_scalar p c h = Inr (m, h1) \<Longrightarrow> m = length h \<and> (\<exists>k. h1 = h @ [k])"
  by (auto simp: eq_scalar_def alloc_def split: sum.splits ndarray.splits)

lemma getitem_mask_allocates:
  "getitem_mask p m h = Inr (t, h2) \<Longrightarrow> t = length h \<and> (\<exists>a. h2 = h @ [a])"
  by (auto simp: getitem_mask_def alloc_def split: sum.splits ndarray.splits if_splits)

lemma setitem_slice_writes_target:
  "setitem_slice t lo hi v h = Inr h' \<Longrightarrow> \<exists>a. h' = h[t := a]"
  by (auto simp: setitem_slice_def split: sum.splits ndarray.splits nd.splits if_splits prod.splits)

lemma assign_masked_slice_frame:
  assumes "assign_masked_slice p c lo hi v h = Inr h'"
  shows "\<exists>k t. h' = h @ [k, t]"
proof -
  from assms obtain m h1 t h2 where
    e: "eq_scalar p c h = Inr (m, h1)" and g: "getitem_mask p m h1 = Inr (t, h2)"
    and w: "setitem_slice t lo hi v h2 = Inr h'"
    by (auto simp: assign_masked_slice_def split: sum.splits prod.splits)
  from eq_scalar_allocates [OF e] obtain k where h1: "h1 = h @ [k]" by blast
  from getitem_mask_allocates [OF g] obtain a where t: "t = length h1" and h2: "h2 = h1 @ [a]"
    by blast
  from setitem_slice_writes_target [OF w] obtain a' where "h' = h2[t := a']" by blast
  then have "h' = h @ [k, a']" by (simp add: h1 h2 t list_update_append)
  then show ?thesis by blast
qed

lemma off_diagonal_count:
  "length (select (concat (identity 10)) (concat (map (map (\<lambda>x. x = 0)) (identity 10)))) = 90"
  by code_simp


lemma shape_nd_map: "shape_nd (map_nd f a) = shape_nd a"
  by (cases a) (simp_all split: list.splits)

lemma flat_map: "flat (map_nd f a) = map f (flat a)"
  by (cases a) (simp_all add: map_concat)

lemma length_linspace: "length (linspace a b num) = num"
  by (simp add: linspace_def)

lemma assign_masked_slice_identity:
  assumes P: "deref h p = Inr (FloatArr (Mat (identity 10)))"
    and v: "deref h v = Inr (FloatArr (Vec vs))"
    and len: "length vs = 45"
    and sl: "(lo, hi) = (None, Some 45) \<or> (lo, hi) = (Some 45, None)"
  shows "\<exists>k t. assign_masked_slice p 0 lo hi v h = Inr (h @ [k, t])"
proof -
  define K where "K = map_nd (\<lambda>x. x = 0) (Mat (identity 10))"
  define xs where
    "xs = select (concat (identity 10)) (concat (map (map (\<lambda>x. x = 0)) (identity 10)))"
  have sh: "shape_nd K = shape_nd (Mat (identity 10))"
    unfolding K_def by (rule shape_nd_map)
  have fl: "flat K = concat (map (map (\<lambda>x. x = 0)) (identity 10))"
    unfolding K_def by simp
  have lxs: "length xs = 90"
    unfolding xs_def by (rule off_diagonal_count)
  have p: "p < length h" and vlt: "v < length h"
    using P v by (auto simp: deref_def split: if_splits)
  have e: "eq_scalar p 0 h = Inr (length h, h @ [BoolArr K])"
    by (simp add: eq_scalar_def P alloc_def K_def)
  have dP: "deref (h @ [BoolArr K]) p = Inr (FloatArr (Mat (identity 10)))"
    using p by (simp add: deref_append_old P)
  have dm: "deref (h @ [BoolArr K]) (length h) = Inr (BoolArr K)"
    by (simp add: deref_def)
  have g: "getitem_mask p (length h) (h @ [BoolArr K])
            = Inr (Suc (length h), h @ [BoolArr K, FloatArr (Vec xs)])"
    by (simp add: getitem_mask_def dP dm alloc_def sh fl xs_def)
  have dt: "deref (h @ [BoolArr K, FloatArr (Vec xs)]) (Suc (length h)) = Inr (FloatArr (Vec xs))"
    by (simp add: deref_def nth_append)
  have dv: "deref (h @ [BoolArr K, FloatArr (Vec xs)]) v = Inr (FloatArr (Vec vs))"
    using vlt by (simp add: deref_append_old v)
  have b: "slice_bounds lo hi 90 = (0, 45) \<or> slice_bounds lo hi 90 = (45, 90)"
    using sl by (auto simp: slice_bounds_def)
  have "\<exists>a. setitem_slice (Suc (length h)) lo hi v (h @ [BoolArr K, FloatArr (Vec xs)])
          = Inr ((h @ [BoolArr K, FloatArr (Vec xs)])[Suc (length h) := a])"
    using b by (auto simp: setitem_slice_def dt dv lxs len)
  then obtain a where
    "setitem_slice (Suc (length h)) lo hi v (h @ [BoolArr K, FloatArr (Vec xs)])
       = Inr (h @ [BoolArr K, a])"
    by (auto simp: list_update_append)
  then have "assign_masked_slice p 0 lo hi v h = Inr (h @ [BoolArr K, a])"
    by (simp add: assign_masked_slice_def e g)
  then show ?thesis by blast
qed


lemma cell27_body_result:
  "\<exists>h'. cell27_body b s =
     Inr \<lparr>dbg_heap = dbg_heap s @ FloatArr (Vec (linspace (b / 45) b 45)) #
                        FloatArr (Mat (identity 10)) # h',
          dbg_btwn = length (dbg_heap s), dbg_P = Suc (length (dbg_heap s)),
          dbg_n = replicate 10 25,
          sbm_calls = sbm_calls s @ [(replicate 10 25, FloatArr (Mat (identity 10)))]\<rparr>"
proof -
  define h0 where "h0 = dbg_heap s"
  define L where "L = linspace (b / 45) b 45"
  define h2 where "h2 = h0 @ [FloatArr (Vec L), FloatArr (Mat (identity 10))]"
  have lin: "np_linspace (b / 45) b 45 h0 = (length h0, h0 @ [FloatArr (Vec L)])"
    by (simp add: np_linspace_def alloc_def L_def)
  have idn: "np_identity 10 (h0 @ [FloatArr (Vec L)]) = (Suc (length h0), h2)"
    by (simp add: np_identity_def alloc_def h2_def)
  have lenL: "length L = 45"
    by (simp add: L_def length_linspace)
  have P2: "deref h2 (Suc (length h0)) = Inr (FloatArr (Mat (identity 10)))"
    by (simp add: deref_def h2_def nth_append)
  have b2: "deref h2 (length h0) = Inr (FloatArr (Vec L))"
    by (simp add: deref_def h2_def nth_append)
  obtain k1 t1 where a1:
    "assign_masked_slice (Suc (length h0)) 0 None (Some 45) (length h0) h2 = Inr (h2 @ [k1, t1])"
    using assign_masked_slice_identity [OF P2 b2 lenL, of None "Some 45"] by auto
  define h3 where "h3 = h2 @ [k1, t1]"
  have b3: "deref h3 (length h0) = Inr (FloatArr (Vec L))"
    unfolding h3_def using b2 by (subst deref_append_old) (simp_all add: h2_def)
  define h4 where "h4 = h3 @ [FloatArr (Vec (rev L))]"
  have fl: "np_flip (length h0) h3 = Inr (length h3, h4)"
    by (simp add: np_flip_def b3 alloc_def h4_def)
  have P4: "deref h4 (Suc (length h0)) = Inr (FloatArr (Mat (identity 10)))"
    by (simp add: deref_def h4_def h3_def h2_def nth_append)
  have f4: "deref h4 (length h3) = Inr (FloatArr (Vec (rev L)))"
    by (simp add: deref_def h4_def)
  have lenr: "length (rev L) = 45"
    by (simp add: lenL)
  obtain k2 t2 where a2:
    "assign_masked_slice (Suc (length h0)) 0 (Some 45) None (length h3) h4 = Inr (h4 @ [k2, t2])"
    using assign_masked_slice_identity [OF P4 f4 lenr, of "Some 45" None] by auto
  have P5: "deref (h4 @ [k2, t2]) (Suc (length h0)) = Inr (FloatArr (Mat (identity 10)))"
    by (simp add: deref_def h4_def h3_def h2_def nth_append)
  have h5: "h4 @ [k2, t2] = h0 @ FloatArr (Vec L) # FloatArr (Mat (identity 10)) #
      [k1, t1, FloatArr (Vec (rev L)), k2, t2]"
    by (simp add: h4_def h3_def h2_def)
  have "cell27_body b s =
     Inr \<lparr>dbg_heap = h4 @ [k2, t2],
          dbg_btwn = length h0, dbg_P = Suc (length h0), dbg_n = replicate 10 25,
          sbm_calls = sbm_calls s @ [(replicate 10 25, FloatArr (Mat (identity 10)))]\<rparr>"
    unfolding cell27_body_def h0_def [symmetric] lin
    by (simp add: idn a1 h3_def [symmetric] fl a2 P5 Let_def)
  then show ?thesis
    unfolding h5 h0_def L_def by blast
qed


lemma for_each_sbm_calls:
  "\<exists>s'. for_each bs s = Inr s' \<and>
        sbm_calls s' =
          sbm_calls s @ replicate (length bs) (replicate 10 25, FloatArr (Mat (identity 10)))"
proof (induction bs arbitrary: s)
  case Nil
  show ?case by simp
next
  case (Cons b bs)
  obtain s1 where s1: "cell27_body b s = Inr s1"
    "sbm_calls s1 = sbm_calls s @ [(replicate 10 25, FloatArr (Mat (identity 10)))]"
    using cell27_body_result [of b s] by auto
  obtain s' where s': "for_each bs s1 = Inr s'"
    "sbm_calls s' =
       sbm_calls s1 @ replicate (length bs) (replicate 10 25, FloatArr (Mat (identity 10)))"
    using Cons.IH [of s1] by blast
  show ?case
    using s1 s' by simp
qed

text \<open>
  For comparison, the direct form of the cell before (\<^verbatim>\<open>I = np.identity(10)\<close>,
  \<^verbatim>\<open>I[I==1] = probs\<close>, with \<open>probs\<close> the ten samples from 0.5 to 1 of its first
  iteration) does write into the array it indexes: the object at address 0 ends with
  \<open>probs\<close> on its diagonal.
\<close>

lemma direct_mask_assignment_writes:
  "assign_masked 0 1 1 [FloatArr (Mat (identity 10)), FloatArr (Vec (linspace (1 / 2) 1 10))] =
     Inr [FloatArr (Mat (map (\<lambda>i. map (\<lambda>j. if i = j then linspace (1 / 2) 1 10 ! i else 0)
                              [0..<10]) [0..<10])),
          FloatArr (Vec (linspace (1 / 2) 1 10)),
          BoolArr (Mat (map (map (\<lambda>x. x = 1)) (identity 10)))]"
  by code_simp

text \<open>
  Claim C9. In the last debugging cell the two assignments
  \<^verbatim>\<open>P[P==0][:45] = btwn\<close> and \<^verbatim>\<open>P[P==0][45:] = np.flip(btwn)\<close> write into a temporary
  copy made by the boolean-mask index and never into \<open>P\<close>. First conjunct: whenever such
  a statement succeeds, the heap afterwards is the heap before followed by two new objects
  (the mask and the copy that was written), so every array that existed, \<open>P\<close> among
  them, is unchanged. Second conjunct: for every \<open>b\<close> and from every state, the loop body
  raises nothing, \<open>P\<close> is the 10 by 10 identity matrix when it ends, and the sampler was
  called with that identity matrix. Third conjunct: the whole cell makes ten calls of the
  sampler, each with the identity matrix.
\<close>

theorem masked_slice_assignment_leaves_P:
  "(assign_masked_slice p c lo hi v h = Inr h' \<longrightarrow> (\<exists>k t. h' = h @ [k, t])) \<and>
   (\<exists>s'. cell27_body b s = Inr s' \<and>
         deref (dbg_heap s') (dbg_P s') = Inr (FloatArr (Mat (identity 10))) \<and>
         sbm_calls s' = sbm_calls s @ [(replicate 10 25, FloatArr (Mat (identity 10)))]) \<and>
   (\<exists>s'. cell27 s = Inr s' \<and>
         sbm_calls s' =
           sbm_calls s @ replicate 10 (replicate 10 25, FloatArr (Mat (identity 10))))"
proof (intro conjI impI)
  assume "assign_masked_slice p c lo hi v h = Inr h'"
  then show "\<exists>k t. h' = h @ [k, t]"
    by (rule assign_masked_slice_frame)
next
  obtain h1 where "cell27_body b s =
     Inr \<lparr>dbg_heap = dbg_heap s @ FloatArr (Vec (linspace (b / 45) b 45)) #
                        FloatArr (Mat (identity 10)) # h1,
          dbg_btwn = length (dbg_heap s), dbg_P = Suc (length (dbg_heap s)),
          dbg_n = replicate 10 25,
          sbm_calls = sbm_calls s @ [(replicate 10 25, FloatArr (Mat (identity 10)))]\<rparr>"
    using cell27_body_result [of b s] by blast
  then show "\<exists>s'. cell27_body b s = Inr s' \<and>
         deref (dbg_heap s') (dbg_P s') = Inr (FloatArr (Mat (identity 10))) \<and>
         sbm_calls s' = sbm_calls s @ [(replicate 10 25, FloatArr (Mat (identity 10)))]"
    by (simp add: deref_def nth_append)
next
  show "\<exists>s'. cell27 s = Inr s' \<and>
         sbm_calls s' =
           sbm_calls s @ replicate 10 (replicate 10 25, FloatArr (Mat (identity 10)))"
    using for_each_sbm_calls [of "linspace (1 / 100) (49 / 100) 10" s]
    by (simp add: cell27_def length_linspace)
qed

text \<open>
  The theorem at concrete inputs: \<^verbatim>\<open>A[A==0][:2] = v\<close> on the 2 by 2 identity matrix and
  \<open>v = [5, 6]\<close> succeeds and leaves both objects as they were, the copy holding 5 and 6;
  the loop body for \<open>b = 0.01\<close> and the whole cell, run from the empty state.
\<close>

theorem masked_slice_assignment_leaves_P_witness:
  "assign_masked_slice 1 0 None (Some 2) 0 [FloatArr (Vec [5, 6]), FloatArr (Mat (identity 2))] =
     Inr [FloatArr (Vec [5, 6]), FloatArr (Mat (identity 2)),
          BoolArr (Mat [[False, True], [True, False]]), FloatArr (Vec [5, 6])] \<and>
   (\<exists>k t. [FloatArr (Vec [5, 6]), FloatArr (Mat (identity 2)),
           BoolArr (Mat [[False, True], [True, False]]), FloatArr (Vec [5, 6])] =
          [FloatArr (Vec [5, 6]), FloatArr (Mat (identity 2))] @ [k, t]) \<and>
   (\<exists>s'. cell27_body (1 / 100) empty_state = Inr s' \<and>
         deref (dbg_heap s') (dbg_P s') = Inr (FloatArr (Mat (identity 10))) \<and>
         sbm_calls s' = [(replicate 10 25, FloatArr (Mat (identity 10)))]) \<and>
   (\<exists>s'. cell27 empty_state = Inr s' \<and>
         sbm_calls s' = replicate 10 (replicate 10 25, FloatArr (Mat (identity 10))))"
proof -
  let ?h = "[FloatArr (Vec [5, 6]), FloatArr (Mat (identity 2))]"
  let ?h' = "[FloatArr (Vec [5, 6]), FloatArr (Mat (identity 2)),
          BoolArr (Mat [[False, True], [True, False]]), FloatArr (Vec [5, 6])]"
  have run: "assign_masked_slice 1 0 None (Some 2) 0 ?h = Inr ?h'"
    by code_simp
  have emp: "sbm_calls empty_state = []"
    by (simp add: empty_state_def)
  note inst = masked_slice_assignment_leaves_P
    [of 1 0 None "Some 2" 0 ?h ?h' "1 / 100" empty_state]
  from inst run have "\<exists>k t. ?h' = ?h @ [k, t]"
    by blast
  moreover from inst have "\<exists>s'. cell27_body (1 / 100) empty_state = Inr s' \<and>
         deref (dbg_heap s') (dbg_P s') = Inr (FloatArr (Mat (identity 10))) \<and>
         sbm_calls s' = [(replicate 10 25, FloatArr (Mat (identity 10)))]"
    unfolding emp by simp
  moreover from inst have "\<exists>s'. cell27 empty_state = Inr s' \<and>
         sbm_calls s' = replicate 10 (replicate 10 25, FloatArr (Mat (identity 10)))"
    unfolding emp by simp
  ultimately show ?thesis
    using run by blast
qed

end
